theory Spec2Isabelle
  imports Main
begin

section \<open>Strings and formatted printing\<close>

text \<open>
  A Go string is a sequence of bytes, here a \<open>char list\<close>. The characters of main.go
  outside ASCII are written as the bytes of their UTF-8 encoding, as they are in the
  source file.
\<close>

definition newline :: string where
  "newline = [CHR 0x0A]"

definition check_mark :: string where
  "check_mark = [CHR 0xE2, CHR 0x9C, CHR 0x93]"

definition page_sign :: string where
  "page_sign = [CHR 0xF0, CHR 0x9F, CHR 0x93, CHR 0x84]"

definition crane_sign :: string where
  "crane_sign = [CHR 0xF0, CHR 0x9F, CHR 0x8F, CHR 0x97, CHR 0xEF, CHR 0xB8, CHR 0x8F]"

definition memo_sign :: string where
  "memo_sign = [CHR 0xF0, CHR 0x9F, CHR 0x93, CHR 0x9D]"

definition folder_sign :: string where
  "folder_sign = [CHR 0xF0, CHR 0x9F, CHR 0x93, CHR 0x81]"

text \<open>
  \<open>fmt.Sprintf\<close> on the fragment main.go uses: every operand is a string (the error
  printed under \<open>%v\<close> is passed as its \<open>Error()\<close> text), the verbs are \<open>%s\<close> and
  \<open>%v\<close>, and \<open>%%\<close> is a percent sign. A verb without an operand, an operand without
  a verb and a verb that does not apply to a string are rendered the way the fmt package
  reports them. Flags, widths and the other verbs that do apply to strings are outside
  the fragment.
\<close>

fun extra_operands :: "string list \<Rightarrow> string" where
  "extra_operands [] = []"
| "extra_operands [a] = ''string='' @ a"
| "extra_operands (a # b # bs) = ''string='' @ a @ '', '' @ extra_operands (b # bs)"

fun Sprintf :: "string \<Rightarrow> string list \<Rightarrow> string" where
  "Sprintf [] [] = []"
| "Sprintf [] (a # as) = ''%!(EXTRA '' @ extra_operands (a # as) @ '')''"
| "Sprintf [c] as =
     (if c = CHR ''%'' then ''%!(NOVERB)'' @ Sprintf [] as else c # Sprintf [] as)"
| "Sprintf (c # v # fs) as =
     (if c \<noteq> CHR ''%'' then c # Sprintf (v # fs) as
      else if v = CHR ''%'' then CHR ''%'' # Sprintf fs as
      else (case as of
              [] \<Rightarrow> ''%!'' @ [v] @ ''(MISSING)'' @ Sprintf fs []
            | a # as' \<Rightarrow>
                (if v = CHR ''s'' \<or> v = CHR ''v'' then a @ Sprintf fs as'
                 else ''%!'' @ [v] @ ''(string='' @ a @ '')'' @ Sprintf fs as')))"

section \<open>The configuration and its JSON decoding\<close>

text \<open>The structs \<open>Config\<close> and \<open>StorageConfig\<close> of main.go.\<close>

record StorageConfig =
  BucketName :: string
  EnableVersioning :: bool

record Config =
  Project :: string
  Environment :: string
  Region :: string
  Storage :: StorageConfig

text \<open>
  \<open>var config Config\<close> declares the zero value: empty strings and \<open>false\<close>.
\<close>

definition zero_StorageConfig :: StorageConfig where
  "zero_StorageConfig = \<lparr>BucketName = [], EnableVersioning = False\<rparr>"

definition zero_Config :: Config where
  "zero_Config =
     \<lparr>Project = [], Environment = [], Region = [], Storage = zero_StorageConfig\<rparr>"

text \<open>
  A well-formed JSON document. The members of an object are kept in the order of the
  text, duplicates included, since the decoder visits them in that order. A number keeps
  its literal.
\<close>

datatype json =
    JNull
  | JBool bool
  | JNumber string
  | JString string
  | JArray "json list"
  | JObject "(string \<times> json) list"

text \<open>
  The errors main.go can meet: \<open>os.ReadFile\<close> fails with a path error, and
  \<open>json.Unmarshal\<close> with a syntax error (the text is not JSON) or with a type error
  (a JSON value that the Go field cannot hold). \<open>Error\<close> is the message that \<open>%v\<close>
  prints.
\<close>

datatype error =
    PathError string string string
  | SyntaxError string
  | UnmarshalTypeError string string string string

fun Error :: "error \<Rightarrow> string" where
  "Error (PathError operation path cause) = operation @ '' '' @ path @ '': '' @ cause"
| "Error (SyntaxError msg) = msg"
| "Error (UnmarshalTypeError val ty struct field) =
     (if struct \<noteq> [] \<or> field \<noteq> []
      then ''json: cannot unmarshal '' @ val @ '' into Go struct field '' @ struct @ ''.''
           @ field @ '' of type '' @ ty
      else ''json: cannot unmarshal '' @ val @ '' into Go value of type '' @ ty)"

subsection \<open>encoding/json, as far as \<open>Config\<close> needs it\<close>

text \<open>
  The decoder of the Go standard library, restricted to what decoding into \<open>Config\<close>
  exercises:
  \<^item> an object member is matched to the struct field whose JSON name is equal to the key
    or, failing that, equal to it after case folding; a key that matches no field is
    skipped;
  \<^item> \<open>null\<close> leaves a string, a bool or a struct as it is;
  \<^item> a JSON string is stored in a string field, \<open>true\<close> and \<open>false\<close> in a bool field,
    an object is decoded into a struct field member by member, into the value the field
    already holds;
  \<^item> any other pairing is an \<open>UnmarshalTypeError\<close>; the decoder reports the first one,
    naming the struct whose field it was decoding and the path of the field (releases of
    Go differ in the struct they name; only the text of the message depends on it);
  \<^item> a field that no member sets keeps the value it had.
\<close>

fun json_kind :: "json \<Rightarrow> string" where
  "json_kind JNull = ''null''"
| "json_kind (JBool b) = ''bool''"
| "json_kind (JNumber n) = ''number''"
| "json_kind (JString s) = ''string''"
| "json_kind (JArray vs) = ''array''"
| "json_kind (JObject kvs) = ''object''"

text \<open>
  Case folding of a key. ASCII lower-case letters become upper case. Of the characters
  outside ASCII only two fold to an ASCII letter: U+017F (long s, bytes C5 BF) to \<open>S\<close>
  and U+212A (Kelvin sign, bytes E2 84 AA) to \<open>K\<close>; every other one folds to a
  character outside ASCII and its bytes are kept here, which decides a comparison with
  an ASCII field name the same way.
\<close>

definition fold_byte :: "char \<Rightarrow> char" where
  "fold_byte c =
     (if (97::nat) \<le> of_char c \<and> of_char c \<le> (122::nat)
      then char_of (of_char c - (32::nat)) else c)"

fun foldName :: "string \<Rightarrow> string" where
  "foldName (a # b # c # cs) =
     (if a = CHR 0xE2 \<and> b = CHR 0x84 \<and> c = CHR 0xAA then CHR ''K'' # foldName cs
      else if a = CHR 0xC5 \<and> b = CHR 0xBF then CHR ''S'' # foldName (c # cs)
      else fold_byte a # foldName (b # c # cs))"
| "foldName [a, b] =
     (if a = CHR 0xC5 \<and> b = CHR 0xBF then ''S''
      else fold_byte a # foldName [b])"
| "foldName [a] = [fold_byte a]"
| "foldName [] = []"

definition lookupField :: "string list \<Rightarrow> string \<Rightarrow> string option" where
  "lookupField names key =
     (case find (\<lambda>n. n = key) names of
        Some n \<Rightarrow> Some n
      | None \<Rightarrow> find (\<lambda>n. foldName n = foldName key) names)"

fun join_dot :: "string list \<Rightarrow> string" where
  "join_dot [] = []"
| "join_dot [a] = a"
| "join_dot (a # b # bs) = a @ ''.'' @ join_dot (b # bs)"

definition type_error :: "json \<Rightarrow> string \<Rightarrow> string \<Rightarrow> string list \<Rightarrow> error" where
  "type_error v ty struct fieldStack =
     UnmarshalTypeError (json_kind v) ty struct (join_dot fieldStack)"

fun store_string :: "string \<Rightarrow> string list \<Rightarrow> json \<Rightarrow> string \<Rightarrow> error + string" where
  "store_string struct fieldStack JNull cur = Inr cur"
| "store_string struct fieldStack (JString s) cur = Inr s"
| "store_string struct fieldStack v cur = Inl (type_error v ''string'' struct fieldStack)"

fun store_bool :: "string \<Rightarrow> string list \<Rightarrow> json \<Rightarrow> bool \<Rightarrow> error + bool" where
  "store_bool struct fieldStack JNull cur = Inr cur"
| "store_bool struct fieldStack (JBool b) cur = Inr b"
| "store_bool struct fieldStack v cur = Inl (type_error v ''bool'' struct fieldStack)"

text \<open>The members of an object, one after the other, stopping at the first error.\<close>

fun object :: "('m \<Rightarrow> 'a \<Rightarrow> error + 'a) \<Rightarrow> 'm list \<Rightarrow> 'a \<Rightarrow> error + 'a" where
  "object member [] a = Inr a"
| "object member (m # ms) a =
     (case member m a of Inl e \<Rightarrow> Inl e | Inr a' \<Rightarrow> object member ms a')"

definition StorageConfig_fields :: "string list" where
  "StorageConfig_fields = [''bucket_name'', ''enable_versioning'']"

definition Config_fields :: "string list" where
  "Config_fields = [''project'', ''environment'', ''region'', ''storage'']"

definition StorageConfig_member ::
    "string list \<Rightarrow> string \<times> json \<Rightarrow> StorageConfig \<Rightarrow> error + StorageConfig" where
  "StorageConfig_member fieldStack m s =
     (case lookupField StorageConfig_fields (fst m) of
        None \<Rightarrow> Inr s
      | Some f \<Rightarrow>
          if f = ''bucket_name''
          then (case store_string ''StorageConfig'' (fieldStack @ [f]) (snd m) (BucketName s) of
                  Inl e \<Rightarrow> Inl e
                | Inr x \<Rightarrow> Inr (s\<lparr>BucketName := x\<rparr>))
          else (case store_bool ''StorageConfig'' (fieldStack @ [f]) (snd m) (EnableVersioning s) of
                  Inl e \<Rightarrow> Inl e
                | Inr x \<Rightarrow> Inr (s\<lparr>EnableVersioning := x\<rparr>)))"

fun store_StorageConfig ::
    "string \<Rightarrow> string list \<Rightarrow> json \<Rightarrow> StorageConfig \<Rightarrow> error + StorageConfig" where
  "store_StorageConfig struct fieldStack JNull cur = Inr cur"
| "store_StorageConfig struct fieldStack (JObject ms) cur =
     object (StorageConfig_member fieldStack) ms cur"
| "store_StorageConfig struct fieldStack v cur =
     Inl (type_error v ''main.StorageConfig'' struct fieldStack)"

definition Config_member :: "string \<times> json \<Rightarrow> Config \<Rightarrow> error + Config" where
  "Config_member m c =
     (case lookupField Config_fields (fst m) of
        None \<Rightarrow> Inr c
      | Some f \<Rightarrow>
          if f = ''project''
          then (case store_string ''Config'' [f] (snd m) (Project c) of
                  Inl e \<Rightarrow> Inl e
                | Inr x \<Rightarrow> Inr (c\<lparr>Project := x\<rparr>))
          else if f = ''environment''
          then (case store_string ''Config'' [f] (snd m) (Environment c) of
                  Inl e \<Rightarrow> Inl e
                | Inr x \<Rightarrow> Inr (c\<lparr>Environment := x\<rparr>))
          else if f = ''region''
          then (case store_string ''Config'' [f] (snd m) (Region c) of
                  Inl e \<Rightarrow> Inl e
                | Inr x \<Rightarrow> Inr (c\<lparr>Region := x\<rparr>))
          else (case store_StorageConfig ''Config'' [f] (snd m) (Storage c) of
                  Inl e \<Rightarrow> Inl e
                | Inr x \<Rightarrow> Inr (c\<lparr>Storage := x\<rparr>)))"

fun store_Config :: "json \<Rightarrow> Config \<Rightarrow> error + Config" where
  "store_Config JNull cur = Inr cur"
| "store_Config (JObject ms) cur = object Config_member ms cur"
| "store_Config v cur = Inl (type_error v ''main.Config'' [] [])"

text \<open>
  \<open>json.Unmarshal(data, &config)\<close>. The bytes of the file are represented by what the
  scanner of encoding/json makes of them: a syntax error, or the JSON value they spell.
\<close>

type_synonym scanned = "error + json"

definition Unmarshal :: "scanned \<Rightarrow> Config \<Rightarrow> error + Config" where
  "Unmarshal data config =
     (case data of Inl e \<Rightarrow> Inl e | Inr v \<Rightarrow> store_Config v config)"

section \<open>The declarations handed to the synthesis library\<close>

text \<open>
  The constructors of the cdktf library and of its AWS provider record a declaration in
  the scope they are given. The constructor of a stack checks the id it is given first
  and throws when it refuses it, which the Go binding turns into a panic. What
  \<open>app.Synth()\<close> does with the declarations is not part of this program: it is the
  handoff, modelled as a call that returns. A property of type \<open>*string\<close> is either a
  string that the program supplies (\<open>jsii.String\<close>) or a token that stands for an
  attribute of a declared construct, which is what the getters \<open>bucket.Bucket()\<close> and
  \<open>bucket.Arn()\<close> return.
\<close>

datatype str =
    Str string
  | Tok string string

definition jsii_String :: "string \<Rightarrow> str" where
  "jsii_String s = Str s"

text \<open>
  The four kinds of construct that main.go declares, each with its construct id and the
  fields of the configuration struct that main.go sets:
  \<open>AwsProviderConfig{Region}\<close>, \<open>S3BucketConfig{Bucket, Tags}\<close>,
  \<open>S3BucketVersioningAConfig{Bucket, VersioningConfiguration{Status}}\<close> and
  \<open>TerraformOutputConfig{Value, Description}\<close>.
\<close>

datatype construct =
    AwsProvider string str
  | S3Bucket string str "string \<rightharpoonup> str"
  | S3BucketVersioningA string str str
  | TerraformOutput string str str

record TerraformStack =
  stack_id :: string
  children :: "construct list"

text \<open>
  What a run has done so far: the bytes written to standard output, the stacks of the
  app with their declarations, and whether \<open>app.Synth()\<close> has been called.
\<close>

record state =
  stdout :: string
  stacks :: "TerraformStack list"
  synthesized :: bool

definition initial :: state where
  "initial = \<lparr>stdout = [], stacks = [], synthesized = False\<rparr>"

definition Println :: "string \<Rightarrow> state \<Rightarrow> state" where
  "Println s st = st\<lparr>stdout := stdout st @ s @ newline\<rparr>"

definition Printf :: "string \<Rightarrow> string list \<Rightarrow> state \<Rightarrow> state" where
  "Printf format operands st = st\<lparr>stdout := stdout st @ Sprintf format operands\<rparr>"

text \<open>
  The id of a stack. The constructor refuses an id that holds one of the characters
  \<open>* ? [ ] { } !\<close>, looked for in this order, and then an id that holds a white-space
  character: the JavaScript class \<open>\s\<close>, that is tab, line feed, vertical tab, form
  feed, carriage return, space, and U+00A0, U+1680, U+2000 to U+200A, U+2028, U+2029,
  U+202F, U+205F, U+3000 and U+FEFF, here as the bytes of their UTF-8 encoding. The id
  under which an accepted stack is recorded has every \<open>/\<close> replaced by \<open>--\<close>.
\<close>

datatype panic =
    GlobCharacter char
  | Whitespace

definition glob_characters :: string where
  "glob_characters = ''*?[]{}!''"

definition whitespace :: "string list" where
  "whitespace =
     [[CHR 0x09], [CHR 0x0A], [CHR 0x0B], [CHR 0x0C], [CHR 0x0D], [CHR 0x20],
      [CHR 0xC2, CHR 0xA0], [CHR 0xE1, CHR 0x9A, CHR 0x80],
      [CHR 0xE2, CHR 0x80, CHR 0x80], [CHR 0xE2, CHR 0x80, CHR 0x81],
      [CHR 0xE2, CHR 0x80, CHR 0x82], [CHR 0xE2, CHR 0x80, CHR 0x83],
      [CHR 0xE2, CHR 0x80, CHR 0x84], [CHR 0xE2, CHR 0x80, CHR 0x85],
      [CHR 0xE2, CHR 0x80, CHR 0x86], [CHR 0xE2, CHR 0x80, CHR 0x87],
      [CHR 0xE2, CHR 0x80, CHR 0x88], [CHR 0xE2, CHR 0x80, CHR 0x89],
      [CHR 0xE2, CHR 0x80, CHR 0x8A], [CHR 0xE2, CHR 0x80, CHR 0xA8],
      [CHR 0xE2, CHR 0x80, CHR 0xA9], [CHR 0xE2, CHR 0x80, CHR 0xAF],
      [CHR 0xE2, CHR 0x81, CHR 0x9F], [CHR 0xE3, CHR 0x80, CHR 0x80],
      [CHR 0xEF, CHR 0xBB, CHR 0xBF]]"

fun occurs :: "string \<Rightarrow> string \<Rightarrow> bool" where
  "occurs w [] = (w = [])"
| "occurs w (c # cs) = (take (length w) (c # cs) = w \<or> occurs w cs)"

definition throwIfIdIsGlobCharacter :: "string \<Rightarrow> panic option" where
  "throwIfIdIsGlobCharacter ident =
     (case find (\<lambda>g. g \<in> set ident) glob_characters of
        None \<Rightarrow> None
      | Some g \<Rightarrow> Some (GlobCharacter g))"

definition throwIfIdContainsWhitespace :: "string \<Rightarrow> panic option" where
  "throwIfIdContainsWhitespace ident =
     (if list_ex (\<lambda>w. occurs w ident) whitespace then Some Whitespace else None)"

fun sanitizeId :: "string \<Rightarrow> string" where
  "sanitizeId [] = []"
| "sanitizeId (c # cs) =
     (if c = CHR ''/'' then ''--'' @ sanitizeId cs else c # sanitizeId cs)"

text \<open>
  A stack and a bucket are referred to by their ids. \<open>NewTerraformStack\<close> either
  panics or adds an empty stack to the app.
\<close>

definition NewTerraformStack :: "string \<Rightarrow> state \<Rightarrow> panic + string \<times> state" where
  "NewTerraformStack ident st =
     (case throwIfIdIsGlobCharacter ident of
        Some p \<Rightarrow> Inl p
      | None \<Rightarrow>
          (case throwIfIdContainsWhitespace ident of
             Some p \<Rightarrow> Inl p
           | None \<Rightarrow>
               Inr (sanitizeId ident,
                    st\<lparr>stacks := stacks st @
                         [\<lparr>stack_id = sanitizeId ident, children = []\<rparr>]\<rparr>)))"

definition declare_in :: "string \<Rightarrow> construct \<Rightarrow> state \<Rightarrow> state" where
  "declare_in scope c st =
     st\<lparr>stacks := map (\<lambda>s. if stack_id s = scope then s\<lparr>children := children s @ [c]\<rparr> else s)
                       (stacks st)\<rparr>"

definition NewAwsProvider :: "string \<Rightarrow> string \<Rightarrow> str \<Rightarrow> state \<Rightarrow> state" where
  "NewAwsProvider scope ident region st = declare_in scope (AwsProvider ident region) st"

definition NewS3Bucket ::
    "string \<Rightarrow> string \<Rightarrow> str \<Rightarrow> (string \<rightharpoonup> str) \<Rightarrow> state \<Rightarrow> string \<times> state" where
  "NewS3Bucket scope ident bucket tags st =
     (ident, declare_in scope (S3Bucket ident bucket tags) st)"

definition S3Bucket_Bucket :: "string \<Rightarrow> str" where
  "S3Bucket_Bucket bucket = Tok bucket ''bucket''"

definition S3Bucket_Arn :: "string \<Rightarrow> str" where
  "S3Bucket_Arn bucket = Tok bucket ''arn''"

definition NewS3BucketVersioningA :: "string \<Rightarrow> string \<Rightarrow> str \<Rightarrow> str \<Rightarrow> state \<Rightarrow> state" where
  "NewS3BucketVersioningA scope ident bucket status st =
     declare_in scope (S3BucketVersioningA ident bucket status) st"

definition NewTerraformOutput :: "string \<Rightarrow> string \<Rightarrow> str \<Rightarrow> str \<Rightarrow> state \<Rightarrow> state" where
  "NewTerraformOutput scope ident val description st =
     declare_in scope (TerraformOutput ident val description) st"

definition Synth :: "state \<Rightarrow> state" where
  "Synth st = st\<lparr>synthesized := True\<rparr>"

section \<open>The program\<close>

text \<open>
  Steps 3 to 9 of \<open>main\<close>, lines 45 to 107: what the program does with the decoded
  configuration, from the state it has reached by then. The result is the state in
  which the process ends and its exit status: a panic in \<open>cdktf.NewTerraformStack\<close>
  ends the process at line 54 with exit status 2, and returning from \<open>main\<close> is exit
  status 0.
\<close>

definition derive :: "Config \<Rightarrow> state \<Rightarrow> state \<times> nat" where
  "derive config st0 =
     (let st = Printf (check_mark @ '' Config loaded for project: %s (environment: %s)''
                       @ newline @ newline)
                 [Project config, Environment config] st0;
          st = Println (crane_sign @ ''  Creating infrastructure from config...'') st;
          stackName = Sprintf ''%s-%s-stack'' [Project config, Environment config]
      in case NewTerraformStack stackName st of
           Inl p \<Rightarrow> (st, 2)
         | Inr (stack, st) \<Rightarrow>
            (let st = NewAwsProvider stack ''aws'' (jsii_String (Region config)) st;
                 fullBucketName = Sprintf ''%s-%s-%s''
                   [Project config, Environment config, BucketName (Storage config)];
                 (bucket, st) = NewS3Bucket stack ''bucket'' (jsii_String fullBucketName)
                   [''Project'' \<mapsto> jsii_String (Project config),
                    ''Environment'' \<mapsto> jsii_String (Environment config),
                    ''ManagedBy'' \<mapsto> jsii_String ''CDKTF-JSON-Platform''] st;
                 st = (if EnableVersioning (Storage config)
                       then Println (''  '' @ check_mark @ '' S3 Bucket with versioning enabled'')
                              (NewS3BucketVersioningA stack ''versioning''
                                 (S3Bucket_Bucket bucket) (jsii_String ''Enabled'') st)
                       else Println (''  '' @ check_mark @ '' S3 Bucket (no versioning)'') st);
                 st = NewTerraformOutput stack ''bucket_name'' (S3Bucket_Bucket bucket)
                   (jsii_String ''The name of the created S3 bucket'') st;
                 st = NewTerraformOutput stack ''bucket_arn'' (S3Bucket_Arn bucket)
                   (jsii_String ''The ARN of the created S3 bucket'') st;
                 st = Println (newline @ memo_sign @ '' Synthesizing to Terraform JSON...'') st;
                 st = Synth st;
                 st = Println (check_mark @ '' Done!'') st;
                 st = Printf (newline @ folder_sign
                              @ '' Generated Terraform in: cdktf.out/stacks/%s/'' @ newline)
                   [stackName] st;
                 st = Println (newline @ ''Next steps:'') st;
                 st = Printf (''  1. Review: cat cdktf.out/stacks/%s/cdk.tf.json'' @ newline)
                   [stackName] st;
                 st = Println (''  2. Deploy: cd cdktf.out/stacks/'' @ stackName
                               @ '' && terraform init && terraform apply'') st
             in (st, 0)))"

text \<open>
  \<open>main\<close>, from the result of \<open>os.ReadFile("config.json")\<close>: the final state and the
  exit status of the process. \<open>os.Exit(1)\<close> ends the run at once.
\<close>

definition reading :: state where
  "reading = Println (page_sign @ '' Reading config.json...'') initial"

definition main :: "error + scanned \<Rightarrow> state \<times> nat" where
  "main readFile =
     (let st = reading in
      case readFile of
        Inl err \<Rightarrow>
          (Printf (''Error reading config.json: %v'' @ newline) [Error err] st, 1)
      | Inr configFile \<Rightarrow>
          (case Unmarshal configFile zero_Config of
             Inl err \<Rightarrow>
               (Printf (''Error parsing config.json: %v'' @ newline) [Error err] st, 1)
           | Inr config \<Rightarrow> derive config st))"

section \<open>Reading the declarations of a run\<close>

fun bucket_name_of :: "construct \<Rightarrow> str list" where
  "bucket_name_of (S3Bucket i b t) = [b]"
| "bucket_name_of c = []"

fun bucket_tags_of :: "construct \<Rightarrow> (string \<rightharpoonup> str) list" where
  "bucket_tags_of (S3Bucket i b t) = [t]"
| "bucket_tags_of c = []"

fun is_versioning :: "construct \<Rightarrow> bool" where
  "is_versioning (S3BucketVersioningA i b s) = True"
| "is_versioning c = False"

fun is_output :: "construct \<Rightarrow> bool" where
  "is_output (TerraformOutput i v d) = True"
| "is_output c = False"

fun is_provider :: "construct \<Rightarrow> bool" where
  "is_provider (AwsProvider i r) = True"
| "is_provider c = False"

fun construct_id :: "construct \<Rightarrow> string" where
  "construct_id (AwsProvider i r) = i"
| "construct_id (S3Bucket i b t) = i"
| "construct_id (S3BucketVersioningA i b s) = i"
| "construct_id (TerraformOutput i v d) = i"

definition declarations :: "state \<Rightarrow> construct list" where
  "declarations st = concat (map children (stacks st))"

definition stack_names :: "state \<Rightarrow> string list" where
  "stack_names st = map stack_id (stacks st)"

definition bucket_names :: "state \<Rightarrow> str list" where
  "bucket_names st = concat (map bucket_name_of (declarations st))"

definition bucket_tags :: "state \<Rightarrow> (string \<rightharpoonup> str) list" where
  "bucket_tags st = concat (map bucket_tags_of (declarations st))"

definition versionings :: "state \<Rightarrow> construct list" where
  "versionings st = filter is_versioning (declarations st)"

definition outputs :: "state \<Rightarrow> construct list" where
  "outputs st = filter is_output (declarations st)"

text \<open>
  What a \<open>*string\<close> property denotes among the declarations: a supplied string denotes
  itself; a token denotes the value that the declaration with that id gives to the
  attribute. Only the bucket name of an S3 bucket is such an attribute here; its ARN is
  assigned by the provider and has no value in the declarations.
\<close>

fun attribute :: "construct \<Rightarrow> string \<Rightarrow> str option" where
  "attribute (S3Bucket i b t) a = (if a = ''bucket'' then Some b else None)"
| "attribute c a = None"

fun denotes :: "construct list \<Rightarrow> str \<Rightarrow> string option" where
  "denotes cs (Str s) = Some s"
| "denotes cs (Tok i a) =
     (case find (\<lambda>c. construct_id c = i) cs of
        None \<Rightarrow> None
      | Some c \<Rightarrow> (case attribute c a of Some (Str s) \<Rightarrow> Some s | _ \<Rightarrow> None))"

section \<open>Notions used in the statements\<close>

text \<open>
  A list of members mentions a field when one of its keys is matched to that field by
  the decoder.
\<close>

definition mentions :: "string list \<Rightarrow> string \<Rightarrow> (string \<times> json) list \<Rightarrow> bool" where
  "mentions names f ms = list_ex (\<lambda>m. lookupField names (fst m) = Some f) ms"

text \<open>The members of a document, those that name the field \<open>f\<close> of \<open>Config\<close> left out.\<close>

definition without :: "string \<Rightarrow> (string \<times> json) list \<Rightarrow> (string \<times> json) list" where
  "without f ms = filter (\<lambda>m. lookupField Config_fields (fst m) \<noteq> Some f) ms"

text \<open>An output binding that carries a description which is not empty.\<close>

fun described :: "construct \<Rightarrow> bool" where
  "described (TerraformOutput i v (Str s)) = (s \<noteq> [])"
| "described c = False"



text \<open>An id that the constructor of a stack accepts.\<close>

definition accepted :: "string \<Rightarrow> bool" where
  "accepted ident =
     (throwIfIdIsGlobCharacter ident = None \<and> throwIfIdContainsWhitespace ident = None)"

text \<open>
  The documents and configurations of the examples: the configuration
  \<open>{"project":"my-app","environment":"dev","region":"us-west-2",
  "storage":{"bucket_name":"data","enable_versioning":true}}\<close>, and variations of it.
\<close>

definition example_members :: "(string \<times> json) list" where
  "example_members =
     [(''project'', JString ''my-app''), (''environment'', JString ''dev''),
      (''region'', JString ''us-west-2''),
      (''storage'', JObject [(''bucket_name'', JString ''data''),
                             (''enable_versioning'', JBool True)])]"

definition example_Config :: Config where
  "example_Config =
     \<lparr>Project = ''my-app'', Environment = ''dev'', Region = ''us-west-2'',
      Storage = \<lparr>BucketName = ''data'', EnableVersioning = True\<rparr>\<rparr>"

definition unversioned_Config :: Config where
  "unversioned_Config =
     \<lparr>Project = ''my-app'', Environment = ''dev'', Region = ''us-west-2'',
      Storage = \<lparr>BucketName = ''data'', EnableVersioning = False\<rparr>\<rparr>"

text \<open>The example without its \<open>storage\<close> object.\<close>

definition no_storage_members :: "(string \<times> json) list" where
  "no_storage_members =
     [(''project'', JString ''my-app''), (''environment'', JString ''dev''),
      (''region'', JString ''us-west-2'')]"

text \<open>The example with an empty \<open>project\<close> and no \<open>bucket_name\<close>.\<close>

definition empty_project_members :: "(string \<times> json) list" where
  "empty_project_members =
     [(''project'', JString []), (''environment'', JString ''dev''),
      (''region'', JString ''us-west-2''),
      (''storage'', JObject [(''enable_versioning'', JBool True)])]"

text \<open>The example with a string where the \<open>storage\<close> object belongs.\<close>

definition ill_typed_members :: "(string \<times> json) list" where
  "ill_typed_members =
     [(''project'', JString ''my-app''), (''storage'', JString ''data'')]"

text \<open>
  The example with the project \<open>my app\<close>, and the example with the project
  \<open>my/app\<close>.
\<close>

definition my_app_members :: "(string \<times> json) list" where
  "my_app_members =
     [(''project'', JString ''my app''), (''environment'', JString ''dev''),
      (''region'', JString ''us-west-2''),
      (''storage'', JObject [(''bucket_name'', JString ''data''),
                             (''enable_versioning'', JBool True)])]"

definition my_app_Config :: Config where
  "my_app_Config =
     \<lparr>Project = ''my app'', Environment = ''dev'', Region = ''us-west-2'',
      Storage = \<lparr>BucketName = ''data'', EnableVersioning = True\<rparr>\<rparr>"

definition slash_members :: "(string \<times> json) list" where
  "slash_members =
     [(''project'', JString ''my/app''), (''environment'', JString ''dev''),
      (''region'', JString ''us-west-2''),
      (''storage'', JObject [(''bucket_name'', JString ''data''),
                             (''enable_versioning'', JBool True)])]"

definition slash_Config :: Config where
  "slash_Config =
     \<lparr>Project = ''my/app'', Environment = ''dev'', Region = ''us-west-2'',
      Storage = \<lparr>BucketName = ''data'', EnableVersioning = True\<rparr>\<rparr>"


section \<open>Facts about the run\<close>

lemmas run_defs = Let_def Println_def Printf_def NewAwsProvider_def NewS3Bucket_def
  NewS3BucketVersioningA_def NewTerraformOutput_def Synth_def declare_in_def jsii_String_def
  S3Bucket_Bucket_def S3Bucket_Arn_def

lemma Sprintf_stack: "Sprintf ''%s-%s-stack'' [p, e] = p @ ''-'' @ e @ ''-stack''"
  by simp

lemma Sprintf_bucket: "Sprintf ''%s-%s-%s'' [p, e, b] = p @ ''-'' @ e @ ''-'' @ b"
  by simp

lemma reading_empty: "stacks reading = [] \<and> \<not> synthesized reading"
  by (simp add: reading_def Println_def initial_def)

lemma NewTerraformStack_accepted:
  "accepted ident \<Longrightarrow>
   NewTerraformStack ident st =
     Inr (sanitizeId ident,
          st\<lparr>stacks := stacks st @ [\<lparr>stack_id = sanitizeId ident, children = []\<rparr>]\<rparr>)"
  by (simp add: NewTerraformStack_def accepted_def)

lemma NewTerraformStack_refused:
  "\<not> accepted ident \<Longrightarrow> \<exists>p. NewTerraformStack ident st = Inl p"
  by (auto simp add: NewTerraformStack_def accepted_def split: option.splits)

lemma derive_refused:
  assumes "\<not> accepted (Project c @ ''-'' @ Environment c @ ''-stack'')"
  shows "stacks (fst (derive c reading)) = [] \<and> \<not> synthesized (fst (derive c reading)) \<and>
         snd (derive c reading) = 2"
proof -
  let ?st = "Println (crane_sign @ ''  Creating infrastructure from config...'')
               (Printf (check_mark @ '' Config loaded for project: %s (environment: %s)''
                        @ newline @ newline)
                  [Project c, Environment c] reading)"
  from NewTerraformStack_refused [OF assms, of ?st] obtain p where
    p: "NewTerraformStack (Project c @ ''-'' @ Environment c @ ''-stack'') ?st = Inl p"
    by blast
  have "derive c reading = (?st, 2)"
    unfolding derive_def Sprintf_stack Let_def p by simp
  then show ?thesis
    by (simp add: Println_def Printf_def reading_empty)
qed

lemma derive_stacks:
  assumes "accepted (Project c @ ''-'' @ Environment c @ ''-stack'')"
  shows "stacks (fst (derive c reading)) =
     [\<lparr>stack_id = sanitizeId (Project c @ ''-'' @ Environment c @ ''-stack''),
       children =
         [AwsProvider ''aws'' (Str (Region c)),
          S3Bucket ''bucket''
            (Str (Project c @ ''-'' @ Environment c @ ''-'' @ BucketName (Storage c)))
            [''Project'' \<mapsto> Str (Project c), ''Environment'' \<mapsto> Str (Environment c),
             ''ManagedBy'' \<mapsto> Str ''CDKTF-JSON-Platform'']]
         @ (if EnableVersioning (Storage c)
            then [S3BucketVersioningA ''versioning'' (Tok ''bucket'' ''bucket'') (Str ''Enabled'')]
            else [])
         @ [TerraformOutput ''bucket_name'' (Tok ''bucket'' ''bucket'')
              (Str ''The name of the created S3 bucket''),
            TerraformOutput ''bucket_arn'' (Tok ''bucket'' ''arn'')
              (Str ''The ARN of the created S3 bucket'')]\<rparr>]"
  unfolding derive_def Sprintf_stack Sprintf_bucket Let_def NewTerraformStack_accepted [OF assms]
  by (simp add: run_defs reading_empty)

lemma derive_finished:
  assumes "accepted (Project c @ ''-'' @ Environment c @ ''-stack'')"
  shows "synthesized (fst (derive c reading)) \<and> snd (derive c reading) = 0"
  unfolding derive_def Sprintf_stack Sprintf_bucket Let_def NewTerraformStack_accepted [OF assms]
  by (simp add: run_defs)

lemma derive_declarations:
  assumes "accepted (Project c @ ''-'' @ Environment c @ ''-stack'')"
  shows "declarations (fst (derive c reading)) =
     [AwsProvider ''aws'' (Str (Region c)),
      S3Bucket ''bucket''
        (Str (Project c @ ''-'' @ Environment c @ ''-'' @ BucketName (Storage c)))
        [''Project'' \<mapsto> Str (Project c), ''Environment'' \<mapsto> Str (Environment c),
         ''ManagedBy'' \<mapsto> Str ''CDKTF-JSON-Platform'']]
     @ (if EnableVersioning (Storage c)
        then [S3BucketVersioningA ''versioning'' (Tok ''bucket'' ''bucket'') (Str ''Enabled'')]
        else [])
     @ [TerraformOutput ''bucket_name'' (Tok ''bucket'' ''bucket'')
          (Str ''The name of the created S3 bucket''),
        TerraformOutput ''bucket_arn'' (Tok ''bucket'' ''arn'')
          (Str ''The ARN of the created S3 bucket'')]"
  by (simp add: declarations_def derive_stacks [OF assms])

lemma derive_refused_declarations:
  assumes "\<not> accepted (Project c @ ''-'' @ Environment c @ ''-stack'')"
  shows "declarations (fst (derive c reading)) = []"
  using derive_refused [OF assms] by (simp add: declarations_def)

lemma derive_exit: "synthesized (fst (derive c reading)) \<longrightarrow> snd (derive c reading) = 0"
  using derive_refused [of c] derive_finished [of c] by blast

lemma sanitizeId_plain: "CHR ''/'' \<notin> set s \<Longrightarrow> sanitizeId s = s"
  by (induction s) auto

lemma main_parsed:
  "Unmarshal data zero_Config = Inr c \<Longrightarrow> main (Inr data) = derive c reading"
  by (simp add: main_def)

lemma main_parse_failed:
  "Unmarshal data zero_Config = Inl e \<Longrightarrow>
   main (Inr data) = (Printf (''Error parsing config.json: %v'' @ newline) [Error e] reading, 1)"
  by (simp add: main_def)

section \<open>Facts about the decoder\<close>

lemma lookupField_in: "lookupField names key = Some f \<Longrightarrow> f \<in> set names"
  by (auto simp: lookupField_def find_Some_iff split: option.splits)

lemma object_append:
  "object member (xs @ ys) a =
     (case object member xs a of Inl e \<Rightarrow> Inl e | Inr a' \<Rightarrow> object member ys a')"
  by (induction xs arbitrary: a) (auto split: sum.splits)

lemma isl_bind: "isl (case x of Inl e \<Rightarrow> Inl e | Inr y \<Rightarrow> Inr (f y)) = isl x"
  by (cases x) auto

lemma object_isl:
  assumes indep: "\<And>m a b. isl (member m a) = isl (member m b)"
  shows "isl (object member ms a) = isl (object member ms b)"
proof (induction ms arbitrary: a b)
  case Nil
  show ?case by simp
next
  case (Cons m ms)
  show ?case
  proof (cases "member m a")
    case (Inl e)
    with indep [of m a b] show ?thesis by (auto split: sum.splits)
  next
    case (Inr a1)
    with indep [of m a b] obtain b1 where "member m b = Inr b1"
      by (cases "member m b") auto
    with Inr Cons.IH [of a1 b1] show ?thesis by simp
  qed
qed

lemma object_filter:
  assumes indep: "\<And>m a b. isl (member m a) = isl (member m b)"
  shows "\<not> isl (object member ms a) \<Longrightarrow> \<not> isl (object member (filter P ms) a)"
proof (induction ms arbitrary: a)
  case Nil
  then show ?case by simp
next
  case (Cons m ms)
  from Cons.prems obtain a1 where a1: "member m a = Inr a1"
    and rest: "\<not> isl (object member ms a1)"
    by (cases "member m a") auto
  have here: "\<not> isl (object member (filter P ms) a1)"
    by (rule Cons.IH [OF rest])
  show ?case
  proof (cases "P m")
    case True
    with a1 here show ?thesis by simp
  next
    case False
    from here object_isl [OF indep, where ms = "filter P ms" and a = a1 and b = a]
    have "\<not> isl (object member (filter P ms) a)" by simp
    with False show ?thesis by simp
  qed
qed

lemma store_string_isl:
  "isl (store_string st fs v cur) = isl (store_string st fs v cur')"
  by (cases v) auto

lemma store_bool_isl:
  "isl (store_bool st fs v cur) = isl (store_bool st fs v cur')"
  by (cases v) auto

lemma StorageConfig_member_isl:
  "isl (StorageConfig_member fs m s) = isl (StorageConfig_member fs m t)"
  unfolding StorageConfig_member_def
  by (simp add: isl_bind store_string_isl [of _ _ _ "BucketName s" "BucketName t"]
        store_bool_isl [of _ _ _ "EnableVersioning s" "EnableVersioning t"]
      split: option.splits)

lemma store_StorageConfig_isl:
  "isl (store_StorageConfig st fs v s) = isl (store_StorageConfig st fs v t)"
  by (cases v) (simp_all add: object_isl [OF StorageConfig_member_isl])

lemma Config_member_isl:
  "isl (Config_member m c) = isl (Config_member m d)"
  unfolding Config_member_def
  by (simp add: isl_bind store_string_isl [of _ _ _ "Project c" "Project d"]
        store_string_isl [of _ _ _ "Environment c" "Environment d"]
        store_string_isl [of _ _ _ "Region c" "Region d"]
        store_StorageConfig_isl [of _ _ _ "Storage c" "Storage d"]
      split: option.splits)

lemma Config_member_other:
  "lookupField Config_fields (fst m) \<noteq> Some f \<Longrightarrow> Config_member m c = Inr c' \<Longrightarrow>
   (f = ''project'' \<longrightarrow> Project c' = Project c) \<and>
   (f = ''environment'' \<longrightarrow> Environment c' = Environment c) \<and>
   (f = ''region'' \<longrightarrow> Region c' = Region c) \<and>
   (f = ''storage'' \<longrightarrow> Storage c' = Storage c)"
  unfolding Config_member_def
  by (auto split: option.splits if_splits sum.splits dest: lookupField_in simp: Config_fields_def)

lemma Config_unmentioned:
  "\<not> mentions Config_fields f ms \<Longrightarrow> object Config_member ms c = Inr c' \<Longrightarrow>
   (f = ''project'' \<longrightarrow> Project c' = Project c) \<and>
   (f = ''environment'' \<longrightarrow> Environment c' = Environment c) \<and>
   (f = ''region'' \<longrightarrow> Region c' = Region c) \<and>
   (f = ''storage'' \<longrightarrow> Storage c' = Storage c)"
proof (induction ms arbitrary: c)
  case Nil
  then show ?case by simp
next
  case (Cons m ms)
  from Cons.prems(2) obtain c1 where c1: "Config_member m c = Inr c1"
    and rest: "object Config_member ms c1 = Inr c'"
    by (auto split: sum.splits)
  from Cons.prems(1) have here: "lookupField Config_fields (fst m) \<noteq> Some f"
    and there: "\<not> mentions Config_fields f ms"
    by (simp_all add: mentions_def)
  from Config_member_other [OF here c1] Cons.IH [OF there rest] show ?case by simp
qed



lemma lookup_project: "lookupField Config_fields ''project'' = Some ''project''"
  by (simp add: lookupField_def Config_fields_def)
lemma lookup_environment: "lookupField Config_fields ''environment'' = Some ''environment''"
  by (simp add: lookupField_def Config_fields_def)
lemma lookup_region: "lookupField Config_fields ''region'' = Some ''region''"
  by (simp add: lookupField_def Config_fields_def)
lemma lookup_storage: "lookupField Config_fields ''storage'' = Some ''storage''"
  by (simp add: lookupField_def Config_fields_def)
lemma lookup_bucket_name: "lookupField StorageConfig_fields ''bucket_name'' = Some ''bucket_name''"
  by (simp add: lookupField_def StorageConfig_fields_def)





section \<open>Facts about the examples\<close>

lemma example_parsed:
  "Unmarshal (Inr (JObject example_members)) zero_Config = Inr example_Config"
  by code_simp

lemma my_app_parsed:
  "Unmarshal (Inr (JObject my_app_members)) zero_Config = Inr my_app_Config"
  by code_simp

lemma slash_parsed:
  "Unmarshal (Inr (JObject slash_members)) zero_Config = Inr slash_Config"
  by code_simp

lemma example_accepted:
  "accepted (Project example_Config @ ''-'' @ Environment example_Config @ ''-stack'')"
  by code_simp


lemma slash_accepted:
  "accepted (Project slash_Config @ ''-'' @ Environment slash_Config @ ''-stack'')"
  by code_simp

lemma my_app_refused:
  "\<not> accepted (Project my_app_Config @ ''-'' @ Environment my_app_Config @ ''-stack'')"
  by code_simp

lemma my_app_run:
  "main (Inr (Inr (JObject my_app_members))) = derive my_app_Config reading \<and>
   declarations (fst (derive my_app_Config reading)) = [] \<and>
   snd (derive my_app_Config reading) = 2"
  using main_parsed [OF my_app_parsed] derive_refused [OF my_app_refused]
    derive_refused_declarations [OF my_app_refused]
  by simp

section \<open>The claims\<close>

text \<open>
  A configuration is what \<open>json.Unmarshal\<close> leaves in \<open>config\<close>; the program checks
  nothing further. \<open>derive c reading\<close> is the state in which \<open>main\<close> ends, with the
  exit status, when the decoded configuration is \<open>c\<close> (lemma \<open>main_parsed\<close>). The
  name that the program gives to the stack constructor is
  \<open>project + "-" + environment + "-stack"\<close>; the run gets past line 54 exactly when
  the constructor accepts that name.
\<close>

subsection \<open>C1\<close>

text \<open>
  C1, as amended. The claim is that a well-formed document that lacks a required field
  fails to parse. The decoder has no notion of a required field: a field that no member
  names keeps its zero value. What holds is this. A parse that fails (the content is not
  well-formed, or a member gives a field a value it cannot hold) ends the run with exit
  status 1 and the message \<open>Error parsing config.json: \<close> followed by the error, and
  with no stack, no declaration and no synthesis. And when a document parses, the same
  document with the members of any one field left out parses as well, and the run goes
  on to step 3 with the configuration decoded from it.
\<close>

theorem parse_failure_fatal_missing_field_accepted:
  "(Unmarshal data zero_Config = Inl e \<longrightarrow>
      main (Inr data) =
        (reading\<lparr>stdout := stdout reading @ ''Error parsing config.json: '' @ Error e @ newline\<rparr>,
         1) \<and>
      stack_names (fst (main (Inr data))) = [] \<and>
      declarations (fst (main (Inr data))) = [] \<and>
      \<not> synthesized (fst (main (Inr data)))) \<and>
   (Unmarshal (Inr (JObject ms)) zero_Config = Inr c \<longrightarrow>
      (\<exists>c'. Unmarshal (Inr (JObject (without f ms))) zero_Config = Inr c' \<and>
            main (Inr (Inr (JObject (without f ms)))) = derive c' reading))"
proof (intro conjI impI)
  assume failed: "Unmarshal data zero_Config = Inl e"
  then have run: "main (Inr data) =
        (reading\<lparr>stdout := stdout reading @ ''Error parsing config.json: '' @ Error e @ newline\<rparr>,
         1)"
    by (simp add: main_def Printf_def newline_def)
  then show "main (Inr data) =
        (reading\<lparr>stdout := stdout reading @ ''Error parsing config.json: '' @ Error e @ newline\<rparr>,
         1)" .
  from run show "stack_names (fst (main (Inr data))) = []"
    by (simp add: stack_names_def reading_empty)
  from run show "declarations (fst (main (Inr data))) = []"
    by (simp add: declarations_def reading_empty)
  from run show "\<not> synthesized (fst (main (Inr data)))"
    by (simp add: reading_empty)
next
  assume parsed: "Unmarshal (Inr (JObject ms)) zero_Config = Inr c"
  then have "\<not> isl (object Config_member ms zero_Config)"
    by (simp add: Unmarshal_def)
  then have "\<not> isl (object Config_member (without f ms) zero_Config)"
    unfolding without_def by (rule object_filter [OF Config_member_isl])
  then obtain c' where c': "Unmarshal (Inr (JObject (without f ms))) zero_Config = Inr c'"
    by (cases "object Config_member (without f ms) zero_Config") (auto simp: Unmarshal_def)
  with main_parsed [OF c']
  show "\<exists>c'. Unmarshal (Inr (JObject (without f ms))) zero_Config = Inr c' \<and>
            main (Inr (Inr (JObject (without f ms)))) = derive c' reading"
    by blast
qed

theorem parse_failure_fatal_missing_field_accepted_witness:
  "Unmarshal (Inr (JObject ill_typed_members)) zero_Config =
     Inl (UnmarshalTypeError ''string'' ''main.StorageConfig'' ''Config'' ''storage'') \<and>
   snd (main (Inr (Inr (JObject ill_typed_members)))) = 1 \<and>
   declarations (fst (main (Inr (Inr (JObject ill_typed_members))))) = [] \<and>
   Unmarshal (Inr (JObject example_members)) zero_Config = Inr example_Config \<and>
   (\<exists>c'. Unmarshal (Inr (JObject (without ''storage'' example_members))) zero_Config = Inr c')"
proof -
  have failed: "Unmarshal (Inr (JObject ill_typed_members)) zero_Config =
     Inl (UnmarshalTypeError ''string'' ''main.StorageConfig'' ''Config'' ''storage'')"
    by code_simp
  from failed example_parsed
    parse_failure_fatal_missing_field_accepted
      [of "Inr (JObject ill_typed_members)"
          "UnmarshalTypeError ''string'' ''main.StorageConfig'' ''Config'' ''storage''"
          example_members example_Config "''storage''"]
  show ?thesis by auto
qed

text \<open>
  The document \<open>{"project":"my-app","environment":"dev","region":"us-west-2"}\<close> has
  no \<open>storage\<close> object. It parses, the run exits with status 0 after synthesis, and a
  bucket named \<open>my-app-dev-\<close> is declared.
\<close>

theorem missing_storage_accepted:
  "snd (main (Inr (Inr (JObject no_storage_members)))) = 0 \<and>
   synthesized (fst (main (Inr (Inr (JObject no_storage_members))))) \<and>
   bucket_names (fst (main (Inr (Inr (JObject no_storage_members))))) = [Str ''my-app-dev-'']"
proof -
  let ?c = "\<lparr>Project = ''my-app'', Environment = ''dev'', Region = ''us-west-2'',
               Storage = \<lparr>BucketName = [], EnableVersioning = False\<rparr>\<rparr>"
  have parsed: "Unmarshal (Inr (JObject no_storage_members)) zero_Config = Inr ?c"
    by code_simp
  have "accepted ''my-app-dev-stack''"
    by code_simp
  then have acc: "accepted (Project ?c @ ''-'' @ Environment ?c @ ''-stack'')"
    by simp
  from main_parsed [OF parsed] derive_finished [OF acc] derive_declarations [OF acc]
  show ?thesis
    by (simp add: bucket_names_def)
qed

subsection \<open>C2\<close>

text \<open>
  C2, as amended. The claim is that after a successful parse the four string fields are
  not empty, and that an empty or absent string field makes the parse fail. The decoder
  checks neither. What holds is this. After a successful parse, each of \<open>project\<close>,
  \<open>environment\<close> and \<open>region\<close> that the document does not mention is the empty
  string, and so is \<open>storage.bucket_name\<close> when the document does not mention
  \<open>storage\<close>. And a document that parses still parses when a member giving one of the
  four fields the empty string is added at its end; that field is then empty.
\<close>

theorem unmentioned_string_fields_empty:
  assumes parsed: "Unmarshal (Inr (JObject ms)) zero_Config = Inr c"
  shows "(\<not> mentions Config_fields ''project'' ms \<longrightarrow> Project c = []) \<and>
         (\<not> mentions Config_fields ''environment'' ms \<longrightarrow> Environment c = []) \<and>
         (\<not> mentions Config_fields ''region'' ms \<longrightarrow> Region c = []) \<and>
         (\<not> mentions Config_fields ''storage'' ms \<longrightarrow> BucketName (Storage c) = []) \<and>
         Unmarshal (Inr (JObject (ms @ [(''project'', JString [])]))) zero_Config =
           Inr (c\<lparr>Project := []\<rparr>) \<and>
         Unmarshal (Inr (JObject (ms @ [(''environment'', JString [])]))) zero_Config =
           Inr (c\<lparr>Environment := []\<rparr>) \<and>
         Unmarshal (Inr (JObject (ms @ [(''region'', JString [])]))) zero_Config =
           Inr (c\<lparr>Region := []\<rparr>) \<and>
         Unmarshal (Inr (JObject (ms @ [(''storage'', JObject [(''bucket_name'', JString [])])])))
             zero_Config =
           Inr (c\<lparr>Storage := (Storage c)\<lparr>BucketName := []\<rparr>\<rparr>)"
proof -
  from parsed have obj: "object Config_member ms zero_Config = Inr c"
    by (simp add: Unmarshal_def)
  have absent: "(\<not> mentions Config_fields ''project'' ms \<longrightarrow> Project c = []) \<and>
         (\<not> mentions Config_fields ''environment'' ms \<longrightarrow> Environment c = []) \<and>
         (\<not> mentions Config_fields ''region'' ms \<longrightarrow> Region c = []) \<and>
         (\<not> mentions Config_fields ''storage'' ms \<longrightarrow> BucketName (Storage c) = [])"
    using Config_unmentioned [OF _ obj, of "''project''"]
      Config_unmentioned [OF _ obj, of "''environment''"]
      Config_unmentioned [OF _ obj, of "''region''"]
      Config_unmentioned [OF _ obj, of "''storage''"]
    by (simp add: zero_Config_def zero_StorageConfig_def)
  have empty: "Unmarshal (Inr (JObject (ms @ [(''project'', JString [])]))) zero_Config =
           Inr (c\<lparr>Project := []\<rparr>) \<and>
         Unmarshal (Inr (JObject (ms @ [(''environment'', JString [])]))) zero_Config =
           Inr (c\<lparr>Environment := []\<rparr>) \<and>
         Unmarshal (Inr (JObject (ms @ [(''region'', JString [])]))) zero_Config =
           Inr (c\<lparr>Region := []\<rparr>) \<and>
         Unmarshal (Inr (JObject (ms @ [(''storage'', JObject [(''bucket_name'', JString [])])])))
             zero_Config =
           Inr (c\<lparr>Storage := (Storage c)\<lparr>BucketName := []\<rparr>\<rparr>)"
    by (simp add: Unmarshal_def object_append obj Config_member_def StorageConfig_member_def
        lookup_project lookup_environment lookup_region lookup_storage lookup_bucket_name)
  from absent empty show ?thesis by simp
qed

theorem unmentioned_string_fields_empty_witness:
  "Unmarshal (Inr (JObject [(''environment'', JString ''dev'')])) zero_Config =
     Inr (zero_Config\<lparr>Environment := ''dev''\<rparr>) \<and>
   \<not> mentions Config_fields ''project'' [(''environment'', JString ''dev'')] \<and>
   \<not> mentions Config_fields ''region'' [(''environment'', JString ''dev'')] \<and>
   \<not> mentions Config_fields ''storage'' [(''environment'', JString ''dev'')] \<and>
   Project (zero_Config\<lparr>Environment := ''dev''\<rparr>) = [] \<and>
   Region (zero_Config\<lparr>Environment := ''dev''\<rparr>) = [] \<and>
   BucketName (Storage (zero_Config\<lparr>Environment := ''dev''\<rparr>)) = [] \<and>
   Unmarshal (Inr (JObject ([(''environment'', JString ''dev'')] @ [(''project'', JString [])])))
       zero_Config =
     Inr (zero_Config\<lparr>Environment := ''dev'', Project := []\<rparr>)"
proof -
  have parsed: "Unmarshal (Inr (JObject [(''environment'', JString ''dev'')])) zero_Config =
     Inr (zero_Config\<lparr>Environment := ''dev''\<rparr>)"
    by code_simp
  have p: "\<not> mentions Config_fields ''project'' [(''environment'', JString ''dev'')]"
    by code_simp
  have r: "\<not> mentions Config_fields ''region'' [(''environment'', JString ''dev'')]"
    by code_simp
  have s: "\<not> mentions Config_fields ''storage'' [(''environment'', JString ''dev'')]"
    by code_simp
  from p r s parsed unmentioned_string_fields_empty [OF parsed] show ?thesis
    by simp
qed

text \<open>
  The document \<open>{"project":"","environment":"dev","region":"us-west-2",
  "storage":{"enable_versioning":true}}\<close> parses: \<open>project\<close> and
  \<open>storage.bucket_name\<close> are empty after the parse, and the run exits with status 0.
\<close>

theorem empty_string_fields_accepted:
  "Unmarshal (Inr (JObject empty_project_members)) zero_Config =
     Inr \<lparr>Project = [], Environment = ''dev'', Region = ''us-west-2'',
          Storage = \<lparr>BucketName = [], EnableVersioning = True\<rparr>\<rparr> \<and>
   snd (main (Inr (Inr (JObject empty_project_members)))) = 0"
proof -
  let ?c = "\<lparr>Project = [], Environment = ''dev'', Region = ''us-west-2'',
               Storage = \<lparr>BucketName = [], EnableVersioning = True\<rparr>\<rparr>"
  have parsed: "Unmarshal (Inr (JObject empty_project_members)) zero_Config = Inr ?c"
    by code_simp
  have "accepted ''-dev-stack''"
    by code_simp
  then have acc: "accepted (Project ?c @ ''-'' @ Environment ?c @ ''-stack'')"
    by simp
  from parsed main_parsed [OF parsed] derive_finished [OF acc] show ?thesis
    by simp
qed

subsection \<open>C3\<close>

text \<open>
  C3, as amended. The claim is that every valid configuration with non-empty fields has
  a derived bucket name. The program declares the stack first, and the stack
  constructor refuses a name that holds white space or one of \<open>* ? [ ] { } !\<close>; the
  program does not check the fields before. What holds is this. For every configuration
  whose stack name the constructor accepts, one bucket is declared and its name is
  \<open>project + "-" + environment + "-" + storage.bucket_name\<close>. For every other
  configuration the run ends at line 54 with exit status 2 and no bucket is declared.
\<close>

theorem bucket_name_concatenation:
  "(accepted (Project c @ ''-'' @ Environment c @ ''-stack'') \<longrightarrow>
      bucket_names (fst (derive c reading)) = [Str (Project c @ ''-'' @ Environment c @ ''-'' @ BucketName (Storage c))]) \<and>
   (\<not> accepted (Project c @ ''-'' @ Environment c @ ''-stack'') \<longrightarrow>
      bucket_names (fst (derive c reading)) = [] \<and> snd (derive c reading) = 2)"
  using derive_refused [of c]
  by (simp add: bucket_names_def derive_declarations derive_refused_declarations)

theorem bucket_name_concatenation_witness:
  "accepted (Project example_Config @ ''-'' @ Environment example_Config @ ''-stack'') \<and>
   bucket_names (fst (derive example_Config reading)) = [Str ''my-app-dev-data''] \<and>
   \<not> accepted (Project my_app_Config @ ''-'' @ Environment my_app_Config @ ''-stack'') \<and>
   bucket_names (fst (derive my_app_Config reading)) = [] \<and>
   snd (derive my_app_Config reading) = 2"
proof -
  from example_accepted bucket_name_concatenation [of example_Config]
  have "bucket_names (fst (derive example_Config reading)) = [Str ''my-app-dev-data'']"
    by (simp add: example_Config_def)
  with example_accepted my_app_refused bucket_name_concatenation [of my_app_Config]
  show ?thesis by blast
qed

text \<open>
  The configuration \<open>{"project":"my app","environment":"dev","region":"us-west-2",
  "storage":{"bucket_name":"data","enable_versioning":true}}\<close> has no empty field. It
  parses, the run ends with exit status 2, and no bucket name has been derived.
\<close>

theorem rejected_stack_name_no_bucket:
  "Unmarshal (Inr (JObject my_app_members)) zero_Config = Inr my_app_Config \<and>
   Project my_app_Config \<noteq> [] \<and> Environment my_app_Config \<noteq> [] \<and>
   BucketName (Storage my_app_Config) \<noteq> [] \<and>
   snd (main (Inr (Inr (JObject my_app_members)))) = 2 \<and>
   bucket_names (fst (main (Inr (Inr (JObject my_app_members))))) = []"
  using my_app_parsed my_app_run
  by (simp add: bucket_names_def my_app_Config_def)

subsection \<open>C4\<close>

text \<open>
  C4, as amended. The claim is that the stack identity is always
  \<open>project + "-" + environment + "-stack"\<close>. That string is the name the program
  gives to the stack constructor; the constructor refuses some names, and it records an
  accepted name with every \<open>/\<close> replaced by \<open>--\<close>. What holds is this. For every
  configuration whose stack name the constructor accepts, the app has one stack, whose
  identity is the name with every \<open>/\<close> replaced by \<open>--\<close>; it is the name itself when
  neither \<open>project\<close> nor \<open>environment\<close> holds a \<open>/\<close>. For every other configuration
  the run ends at line 54 with exit status 2 and the app has no stack.
\<close>

theorem stack_identity_concatenation:
  "(accepted (Project c @ ''-'' @ Environment c @ ''-stack'') \<longrightarrow>
      stack_names (fst (derive c reading)) = [sanitizeId (Project c @ ''-'' @ Environment c @ ''-stack'')] \<and>
      (CHR ''/'' \<notin> set (Project c) \<and> CHR ''/'' \<notin> set (Environment c) \<longrightarrow>
         stack_names (fst (derive c reading)) = [Project c @ ''-'' @ Environment c @ ''-stack''])) \<and>
   (\<not> accepted (Project c @ ''-'' @ Environment c @ ''-stack'') \<longrightarrow>
      stack_names (fst (derive c reading)) = [] \<and> snd (derive c reading) = 2)"
proof (intro conjI impI)
  assume acc: "accepted (Project c @ ''-'' @ Environment c @ ''-stack'')"
  from derive_stacks [OF acc]
  show names: "stack_names (fst (derive c reading)) = [sanitizeId (Project c @ ''-'' @ Environment c @ ''-stack'')]"
    by (simp add: stack_names_def)
  assume "CHR ''/'' \<notin> set (Project c) \<and> CHR ''/'' \<notin> set (Environment c)"
  then have "CHR ''/'' \<notin> set (Project c @ ''-'' @ Environment c @ ''-stack'')"
    by simp
  from sanitizeId_plain [OF this] names
  show "stack_names (fst (derive c reading)) = [Project c @ ''-'' @ Environment c @ ''-stack'']"
    by simp
next
  assume "\<not> accepted (Project c @ ''-'' @ Environment c @ ''-stack'')"
  from derive_refused [OF this]
  show "stack_names (fst (derive c reading)) = []" and "snd (derive c reading) = 2"
    by (simp_all add: stack_names_def)
qed

theorem stack_identity_concatenation_witness:
  "accepted (Project example_Config @ ''-'' @ Environment example_Config @ ''-stack'') \<and>
   CHR ''/'' \<notin> set (Project example_Config) \<and> CHR ''/'' \<notin> set (Environment example_Config) \<and>
   stack_names (fst (derive example_Config reading)) = [''my-app-dev-stack''] \<and>
   \<not> accepted (Project my_app_Config @ ''-'' @ Environment my_app_Config @ ''-stack'') \<and>
   stack_names (fst (derive my_app_Config reading)) = []"
proof -
  have plain: "CHR ''/'' \<notin> set (Project example_Config) \<and>
               CHR ''/'' \<notin> set (Environment example_Config)"
    by (simp add: example_Config_def)
  from plain example_accepted stack_identity_concatenation [of example_Config]
  have "stack_names (fst (derive example_Config reading)) = [''my-app-dev-stack'']"
    by (simp add: example_Config_def)
  with plain example_accepted my_app_refused stack_identity_concatenation [of my_app_Config]
  show ?thesis by blast
qed

text \<open>
  The configuration with the project \<open>my/app\<close> parses and the run exits with status
  0; the identity of the stack is \<open>my--app-dev-stack\<close>, while
  \<open>project + "-" + environment + "-stack"\<close> is \<open>my/app-dev-stack\<close>.
\<close>

theorem slash_rewritten_in_stack_identity:
  "Unmarshal (Inr (JObject slash_members)) zero_Config = Inr slash_Config \<and>
   Project slash_Config @ ''-'' @ Environment slash_Config @ ''-stack'' = ''my/app-dev-stack'' \<and>
   snd (main (Inr (Inr (JObject slash_members)))) = 0 \<and>
   stack_names (fst (main (Inr (Inr (JObject slash_members))))) = [''my--app-dev-stack'']"
  using slash_parsed main_parsed [OF slash_parsed] derive_finished [OF slash_accepted]
    derive_stacks [OF slash_accepted]
  by (simp add: stack_names_def slash_Config_def)

subsection \<open>C5\<close>

text \<open>
  C5, as amended. The claim is that every valid configuration with the flag set yields
  one versioning declaration; a configuration whose stack name the constructor refuses
  yields none. What holds is this. For every configuration whose stack name the
  constructor accepts and whose \<open>storage.enable_versioning\<close> is true there is exactly
  one versioning declaration; its bucket is the token of the bucket declaration's name,
  which denotes the derived bucket name, and its status is \<open>Enabled\<close>. When the flag is
  false there is no versioning declaration, and there is none either when the
  constructor refuses the stack name (exit status 2). The stack identity and the bucket
  name do not depend on the flag.
\<close>

theorem versioning_follows_flag:
  "(accepted (Project c @ ''-'' @ Environment c @ ''-stack'') \<longrightarrow> EnableVersioning (Storage c) \<longrightarrow>
      versionings (fst (derive c reading)) =
        [S3BucketVersioningA ''versioning'' (S3Bucket_Bucket ''bucket'') (Str ''Enabled'')] \<and>
      denotes (declarations (fst (derive c reading))) (S3Bucket_Bucket ''bucket'') =
        Some (Project c @ ''-'' @ Environment c @ ''-'' @ BucketName (Storage c))) \<and>
   (\<not> EnableVersioning (Storage c) \<longrightarrow> versionings (fst (derive c reading)) = []) \<and>
   (\<not> accepted (Project c @ ''-'' @ Environment c @ ''-stack'') \<longrightarrow>
      versionings (fst (derive c reading)) = [] \<and> snd (derive c reading) = 2) \<and>
   stack_names (fst (derive (c\<lparr>Storage := (Storage c)\<lparr>EnableVersioning := b\<rparr>\<rparr>) reading)) =
     stack_names (fst (derive c reading)) \<and>
   bucket_names (fst (derive (c\<lparr>Storage := (Storage c)\<lparr>EnableVersioning := b\<rparr>\<rparr>) reading)) =
     bucket_names (fst (derive c reading))"
proof (cases "accepted (Project c @ ''-'' @ Environment c @ ''-stack'')")
  case True
  let ?c' = "c\<lparr>Storage := (Storage c)\<lparr>EnableVersioning := b\<rparr>\<rparr>"
  from True have acc': "accepted (Project ?c' @ ''-'' @ Environment ?c' @ ''-stack'')"
    by simp
  from True derive_declarations [OF True] derive_stacks [OF True]
    derive_declarations [OF acc'] derive_stacks [OF acc']
  show ?thesis
    by (simp add: versionings_def bucket_names_def stack_names_def S3Bucket_Bucket_def)
next
  case False
  let ?c' = "c\<lparr>Storage := (Storage c)\<lparr>EnableVersioning := b\<rparr>\<rparr>"
  from False have ref': "\<not> accepted (Project ?c' @ ''-'' @ Environment ?c' @ ''-stack'')"
    by simp
  from False derive_refused [OF False] derive_refused_declarations [OF False]
    derive_refused [OF ref'] derive_refused_declarations [OF ref']
  show ?thesis
    by (simp add: versionings_def bucket_names_def stack_names_def)
qed

theorem versioning_follows_flag_witness:
  "accepted (Project example_Config @ ''-'' @ Environment example_Config @ ''-stack'') \<and>
   EnableVersioning (Storage example_Config) \<and>
   versionings (fst (derive example_Config reading)) =
     [S3BucketVersioningA ''versioning'' (Tok ''bucket'' ''bucket'') (Str ''Enabled'')] \<and>
   \<not> EnableVersioning (Storage unversioned_Config) \<and>
   versionings (fst (derive unversioned_Config reading)) = [] \<and>
   \<not> accepted (Project my_app_Config @ ''-'' @ Environment my_app_Config @ ''-stack'') \<and>
   versionings (fst (derive my_app_Config reading)) = [] \<and>
   stack_names (fst (derive unversioned_Config reading)) =
     stack_names (fst (derive example_Config reading)) \<and>
   bucket_names (fst (derive unversioned_Config reading)) =
     bucket_names (fst (derive example_Config reading))"
proof -
  have on: "EnableVersioning (Storage example_Config)"
    by (simp add: example_Config_def)
  have off: "\<not> EnableVersioning (Storage unversioned_Config)"
    by (simp add: unversioned_Config_def)
  have toggled: "example_Config\<lparr>Storage := (Storage example_Config)\<lparr>EnableVersioning := False\<rparr>\<rparr> =
      unversioned_Config"
    by (simp add: example_Config_def unversioned_Config_def)
  from on off toggled example_accepted my_app_refused
    versioning_follows_flag [of example_Config False]
    versioning_follows_flag [of unversioned_Config False]
    versioning_follows_flag [of my_app_Config False]
  show ?thesis by (simp add: S3Bucket_Bucket_def)
qed

text \<open>
  The configuration with the project \<open>my app\<close> has the flag set. The run ends with
  exit status 2 and has declared no versioning.
\<close>

theorem rejected_stack_name_no_versioning:
  "Unmarshal (Inr (JObject my_app_members)) zero_Config = Inr my_app_Config \<and>
   EnableVersioning (Storage my_app_Config) \<and>
   snd (main (Inr (Inr (JObject my_app_members)))) = 2 \<and>
   versionings (fst (main (Inr (Inr (JObject my_app_members))))) = []"
  using my_app_parsed my_app_run
  by (simp add: versionings_def my_app_Config_def)

subsection \<open>C6\<close>

text \<open>
  C6, as amended. The claim is that every valid configuration has a bucket declaration
  with the tag set; a configuration whose stack name the constructor refuses has no
  bucket declaration. What holds is this. For every configuration whose stack name the
  constructor accepts, the bucket declaration carries one tag map. Its keys are exactly
  \<open>Project\<close>, \<open>Environment\<close> and \<open>ManagedBy\<close>; the first two have the values of the
  configuration's \<open>project\<close> and \<open>environment\<close>, and \<open>ManagedBy\<close> is the constant
  \<open>CDKTF-JSON-Platform\<close>. For every other configuration no tag map is declared.
\<close>

theorem bucket_tag_set:
  "(accepted (Project c @ ''-'' @ Environment c @ ''-stack'') \<longrightarrow>
      (\<exists>tags. bucket_tags (fst (derive c reading)) = [tags] \<and>
         dom tags = {''Project'', ''Environment'', ''ManagedBy''} \<and>
         tags ''Project'' = Some (Str (Project c)) \<and>
         tags ''Environment'' = Some (Str (Environment c)) \<and>
         tags ''ManagedBy'' = Some (Str ''CDKTF-JSON-Platform''))) \<and>
   (\<not> accepted (Project c @ ''-'' @ Environment c @ ''-stack'') \<longrightarrow> bucket_tags (fst (derive c reading)) = [])"
  by (auto simp add: bucket_tags_def derive_declarations derive_refused_declarations)

theorem bucket_tag_set_witness:
  "accepted (Project example_Config @ ''-'' @ Environment example_Config @ ''-stack'') \<and>
   (\<exists>tags. bucket_tags (fst (derive example_Config reading)) = [tags] \<and>
     dom tags = {''Project'', ''Environment'', ''ManagedBy''} \<and>
     tags ''Project'' = Some (Str ''my-app'') \<and>
     tags ''Environment'' = Some (Str ''dev'') \<and>
     tags ''ManagedBy'' = Some (Str ''CDKTF-JSON-Platform'')) \<and>
   \<not> accepted (Project my_app_Config @ ''-'' @ Environment my_app_Config @ ''-stack'') \<and>
   bucket_tags (fst (derive my_app_Config reading)) = []"
proof -
  from example_accepted bucket_tag_set [of example_Config]
  have "\<exists>tags. bucket_tags (fst (derive example_Config reading)) = [tags] \<and>
     dom tags = {''Project'', ''Environment'', ''ManagedBy''} \<and>
     tags ''Project'' = Some (Str ''my-app'') \<and>
     tags ''Environment'' = Some (Str ''dev'') \<and>
     tags ''ManagedBy'' = Some (Str ''CDKTF-JSON-Platform'')"
    by (simp add: example_Config_def)
  with example_accepted my_app_refused bucket_tag_set [of my_app_Config]
  show ?thesis by blast
qed

text \<open>
  The configuration with the project \<open>my app\<close>: the run ends with exit status 2 and
  there is no bucket declaration, hence no tag set.
\<close>

theorem rejected_stack_name_no_tags:
  "Unmarshal (Inr (JObject my_app_members)) zero_Config = Inr my_app_Config \<and>
   snd (main (Inr (Inr (JObject my_app_members)))) = 2 \<and>
   bucket_tags (fst (main (Inr (Inr (JObject my_app_members))))) = []"
  using my_app_parsed my_app_run
  by (simp add: bucket_tags_def)

subsection \<open>C7\<close>

text \<open>
  C7. When \<open>os.ReadFile\<close> fails, the run prints \<open>Error reading config.json: \<close>
  followed by the error and exits with status 1; no stack identity and no declaration
  has been derived, and nothing is synthesized. And every run that reaches the handoff
  to the synthesis exits with status 0.
\<close>

theorem read_failure_fatal:
  "main (Inl err) =
     (reading\<lparr>stdout := stdout reading @ ''Error reading config.json: '' @ Error err @ newline\<rparr>,
      1) \<and>
   stack_names (fst (main (Inl err))) = [] \<and>
   declarations (fst (main (Inl err))) = [] \<and>
   \<not> synthesized (fst (main (Inl err))) \<and>
   (synthesized (fst (main r)) \<longrightarrow> snd (main r) = 0)"
proof -
  have failed: "main (Inl err) =
     (reading\<lparr>stdout := stdout reading @ ''Error reading config.json: '' @ Error err @ newline\<rparr>,
      1)"
    by (simp add: main_def Printf_def newline_def)
  have handoff: "synthesized (fst (main r)) \<longrightarrow> snd (main r) = 0"
    using derive_exit
    by (auto simp add: main_def Printf_def reading_empty split: sum.splits)
  from failed handoff show ?thesis
    by (simp add: stack_names_def declarations_def reading_empty)
qed

theorem read_failure_fatal_witness:
  "snd (main (Inl (PathError ''open'' ''config.json'' ''no such file or directory''))) = 1 \<and>
   stdout (fst (main (Inl (PathError ''open'' ''config.json'' ''no such file or directory'')))) =
     stdout reading
     @ ''Error reading config.json: open config.json: no such file or directory'' @ newline \<and>
   synthesized (fst (main (Inr (Inr (JObject example_members))))) \<and>
   snd (main (Inr (Inr (JObject example_members)))) = 0"
proof -
  from main_parsed [OF example_parsed] derive_finished [OF example_accepted]
  have handoff: "synthesized (fst (main (Inr (Inr (JObject example_members)))))"
    by simp
  from handoff
    read_failure_fatal [of "PathError ''open'' ''config.json'' ''no such file or directory''"
      "Inr (Inr (JObject example_members))"]
  show ?thesis by simp
qed

subsection \<open>C8\<close>

text \<open>
  C8, as amended. The claim is that every valid configuration yields two output
  bindings; a configuration whose stack name the constructor refuses yields none. What
  holds is this. For every configuration whose stack name the constructor accepts there
  are exactly two output bindings, \<open>bucket_name\<close> and \<open>bucket_arn\<close>. The value of the
  first is the token of the bucket's name and the value of the second the token of the
  bucket's ARN; each has a description that is not empty. The token of the bucket's
  name denotes the derived bucket name. For every other configuration there is no
  output binding.
\<close>

theorem two_output_bindings:
  "(accepted (Project c @ ''-'' @ Environment c @ ''-stack'') \<longrightarrow>
      outputs (fst (derive c reading)) =
        [TerraformOutput ''bucket_name'' (S3Bucket_Bucket ''bucket'')
           (Str ''The name of the created S3 bucket''),
         TerraformOutput ''bucket_arn'' (S3Bucket_Arn ''bucket'')
           (Str ''The ARN of the created S3 bucket'')] \<and>
      length (outputs (fst (derive c reading))) = 2 \<and>
      list_all described (outputs (fst (derive c reading))) \<and>
      bucket_names (fst (derive c reading)) = [Str (Project c @ ''-'' @ Environment c @ ''-'' @ BucketName (Storage c))] \<and>
      denotes (declarations (fst (derive c reading))) (S3Bucket_Bucket ''bucket'') =
        Some (Project c @ ''-'' @ Environment c @ ''-'' @ BucketName (Storage c))) \<and>
   (\<not> accepted (Project c @ ''-'' @ Environment c @ ''-stack'') \<longrightarrow> outputs (fst (derive c reading)) = [])"
  by (simp add: outputs_def bucket_names_def derive_declarations derive_refused_declarations
      S3Bucket_Bucket_def S3Bucket_Arn_def)

theorem two_output_bindings_witness:
  "accepted (Project example_Config @ ''-'' @ Environment example_Config @ ''-stack'') \<and>
   outputs (fst (derive example_Config reading)) =
     [TerraformOutput ''bucket_name'' (Tok ''bucket'' ''bucket'')
        (Str ''The name of the created S3 bucket''),
      TerraformOutput ''bucket_arn'' (Tok ''bucket'' ''arn'')
        (Str ''The ARN of the created S3 bucket'')] \<and>
   denotes (declarations (fst (derive example_Config reading))) (Tok ''bucket'' ''bucket'') =
     Some ''my-app-dev-data'' \<and>
   \<not> accepted (Project my_app_Config @ ''-'' @ Environment my_app_Config @ ''-stack'') \<and>
   outputs (fst (derive my_app_Config reading)) = []"
proof -
  from example_accepted two_output_bindings [of example_Config]
  have "outputs (fst (derive example_Config reading)) =
     [TerraformOutput ''bucket_name'' (Tok ''bucket'' ''bucket'')
        (Str ''The name of the created S3 bucket''),
      TerraformOutput ''bucket_arn'' (Tok ''bucket'' ''arn'')
        (Str ''The ARN of the created S3 bucket'')] \<and>
   denotes (declarations (fst (derive example_Config reading))) (Tok ''bucket'' ''bucket'') =
     Some ''my-app-dev-data''"
    by (simp add: example_Config_def S3Bucket_Bucket_def S3Bucket_Arn_def)
  with example_accepted my_app_refused two_output_bindings [of my_app_Config]
  show ?thesis by blast
qed

text \<open>
  The configuration with the project \<open>my app\<close>: the run ends with exit status 2 and
  has produced no output binding.
\<close>

theorem rejected_stack_name_no_outputs:
  "Unmarshal (Inr (JObject my_app_members)) zero_Config = Inr my_app_Config \<and>
   snd (main (Inr (Inr (JObject my_app_members)))) = 2 \<and>
   outputs (fst (main (Inr (Inr (JObject my_app_members))))) = []"
  using my_app_parsed my_app_run
  by (simp add: outputs_def)

subsection \<open>C9\<close>




subsection \<open>C10\<close>

text \<open>
  C10. Two configurations that differ only in \<open>region\<close> give the same stack identity,
  bucket name, tag map, versioning declarations and output bindings; all their
  declarations other than the provider are the same, and so is the exit status. When
  the stack constructor accepts the stack name, the provider is the one declaration
  that holds the region.
\<close>

theorem region_only_in_provider:
  "stack_names (fst (derive (c\<lparr>Region := r\<rparr>) reading)) = stack_names (fst (derive c reading)) \<and>
   bucket_names (fst (derive (c\<lparr>Region := r\<rparr>) reading)) = bucket_names (fst (derive c reading)) \<and>
   bucket_tags (fst (derive (c\<lparr>Region := r\<rparr>) reading)) = bucket_tags (fst (derive c reading)) \<and>
   versionings (fst (derive (c\<lparr>Region := r\<rparr>) reading)) = versionings (fst (derive c reading)) \<and>
   outputs (fst (derive (c\<lparr>Region := r\<rparr>) reading)) = outputs (fst (derive c reading)) \<and>
   filter (\<lambda>d. \<not> is_provider d) (declarations (fst (derive (c\<lparr>Region := r\<rparr>) reading))) =
     filter (\<lambda>d. \<not> is_provider d) (declarations (fst (derive c reading))) \<and>
   snd (derive (c\<lparr>Region := r\<rparr>) reading) = snd (derive c reading) \<and>
   (accepted (Project c @ ''-'' @ Environment c @ ''-stack'') \<longrightarrow>
      filter is_provider (declarations (fst (derive c reading))) =
        [AwsProvider ''aws'' (Str (Region c))])"
proof (cases "accepted (Project c @ ''-'' @ Environment c @ ''-stack'')")
  case True
  let ?c' = "c\<lparr>Region := r\<rparr>"
  from True have acc': "accepted (Project ?c' @ ''-'' @ Environment ?c' @ ''-stack'')"
    by simp
  from True derive_declarations [OF True] derive_stacks [OF True] derive_finished [OF True]
    derive_declarations [OF acc'] derive_stacks [OF acc'] derive_finished [OF acc']
  show ?thesis
    by (simp add: stack_names_def bucket_names_def bucket_tags_def versionings_def outputs_def)
next
  case False
  let ?c' = "c\<lparr>Region := r\<rparr>"
  from False have ref': "\<not> accepted (Project ?c' @ ''-'' @ Environment ?c' @ ''-stack'')"
    by simp
  from False derive_refused [OF False] derive_refused_declarations [OF False]
    derive_refused [OF ref'] derive_refused_declarations [OF ref']
  show ?thesis
    by (simp add: stack_names_def bucket_names_def bucket_tags_def versionings_def outputs_def)
qed

theorem region_only_in_provider_witness:
  "accepted (Project example_Config @ ''-'' @ Environment example_Config @ ''-stack'') \<and>
   declarations (fst (derive (example_Config\<lparr>Region := ''eu-central-1''\<rparr>) reading)) \<noteq>
     declarations (fst (derive example_Config reading)) \<and>
   stack_names (fst (derive (example_Config\<lparr>Region := ''eu-central-1''\<rparr>) reading)) =
     stack_names (fst (derive example_Config reading)) \<and>
   bucket_names (fst (derive (example_Config\<lparr>Region := ''eu-central-1''\<rparr>) reading)) =
     bucket_names (fst (derive example_Config reading)) \<and>
   outputs (fst (derive (example_Config\<lparr>Region := ''eu-central-1''\<rparr>) reading)) =
     outputs (fst (derive example_Config reading)) \<and>
   filter is_provider (declarations (fst (derive example_Config reading))) =
     [AwsProvider ''aws'' (Str ''us-west-2'')]"
proof -
  let ?c' = "example_Config\<lparr>Region := ''eu-central-1''\<rparr>"
  from example_accepted have acc': "accepted (Project ?c' @ ''-'' @ Environment ?c' @ ''-stack'')"
    by simp
  from derive_declarations [OF acc'] derive_declarations [OF example_accepted]
  have differ: "declarations (fst (derive ?c' reading)) \<noteq>
     declarations (fst (derive example_Config reading))"
    by (simp add: example_Config_def)
  have region: "Region example_Config = ''us-west-2''"
    by (simp add: example_Config_def)
  from differ example_accepted region
    region_only_in_provider [where c = example_Config and r = "''eu-central-1''"]
  show ?thesis
    by simp
qed

end
